theory Spec2Isabelle
  imports Complex_Main "HOL-Library.Word"
begin

section \<open>Floating-point values\<close>

text \<open>
  The C sources compute in \<^verbatim>\<open>float\<close> (and, where a \<^verbatim>\<open>double\<close> literal appears, in
  \<^verbatim>\<open>double\<close>). A value of either type is modelled as an exact real number or as the
  not-a-number value \<open>NaN\<close>. Arithmetic on real values is exact: rounding, overflow and
  the sign of zero are not modelled, and a decimal literal stands for its decimal value.
  \<open>NaN\<close> is absorbing for every arithmetic operation and every comparison with \<open>NaN\<close> is
  false, as in IEEE 754. The model has no infinities: a division by zero yields \<open>NaN\<close>
  (in the tracker every division that the code does not guard is \<open>0 / 0\<close> when it
  divides by zero at all).
\<close>

datatype float = Fin real | NaN

fun is_fin :: "float \<Rightarrow> bool" where
  "is_fin (Fin a) = True"
| "is_fin NaN = False"

instantiation float :: "{plus, minus, uminus, times, inverse, ord}"
begin

fun plus_float :: "float \<Rightarrow> float \<Rightarrow> float" where
  "plus_float (Fin a) (Fin b) = Fin (a + b)"
| "plus_float _ _ = NaN"

fun minus_float :: "float \<Rightarrow> float \<Rightarrow> float" where
  "minus_float (Fin a) (Fin b) = Fin (a - b)"
| "minus_float _ _ = NaN"

fun uminus_float :: "float \<Rightarrow> float" where
  "uminus_float (Fin a) = Fin (- a)"
| "uminus_float NaN = NaN"

fun times_float :: "float \<Rightarrow> float \<Rightarrow> float" where
  "times_float (Fin a) (Fin b) = Fin (a * b)"
| "times_float _ _ = NaN"

fun divide_float :: "float \<Rightarrow> float \<Rightarrow> float" where
  "divide_float (Fin a) (Fin b) = (if b = 0 then NaN else Fin (a / b))"
| "divide_float _ _ = NaN"

fun inverse_float :: "float \<Rightarrow> float" where
  "inverse_float (Fin a) = (if a = 0 then NaN else Fin (1 / a))"
| "inverse_float NaN = NaN"

fun less_float :: "float \<Rightarrow> float \<Rightarrow> bool" where
  "less_float (Fin a) (Fin b) = (a < b)"
| "less_float _ _ = False"

fun less_eq_float :: "float \<Rightarrow> float \<Rightarrow> bool" where
  "less_eq_float (Fin a) (Fin b) = (a \<le> b)"
| "less_eq_float _ _ = False"

instance ..

end

text \<open>The C comparison \<^verbatim>\<open>a == b\<close>: false as soon as one side is \<open>NaN\<close>.\<close>

fun feq :: "float \<Rightarrow> float \<Rightarrow> bool" where
  "feq (Fin a) (Fin b) = (a = b)"
| "feq _ _ = False"

text \<open>The functions of \<^verbatim>\<open>math.h\<close> that the sources call.\<close>

fun sqrtf :: "float \<Rightarrow> float" where
  "sqrtf (Fin a) = (if a < 0 then NaN else Fin (sqrt a))"
| "sqrtf NaN = NaN"

fun sinf :: "float \<Rightarrow> float" where
  "sinf (Fin a) = Fin (sin a)"
| "sinf NaN = NaN"

fun cosf :: "float \<Rightarrow> float" where
  "cosf (Fin a) = Fin (cos a)"
| "cosf NaN = NaN"

fun asinf :: "float \<Rightarrow> float" where
  "asinf (Fin a) = (if - 1 \<le> a \<and> a \<le> 1 then Fin (arcsin a) else NaN)"
| "asinf NaN = NaN"

text \<open>The angle of the point \<open>(x, y)\<close>, in \<open>(-\<pi>, \<pi>]\<close>, with \<open>atan2 0 0 = 0\<close> as in C.\<close>

definition atan2 :: "real \<Rightarrow> real \<Rightarrow> real" where
  "atan2 y x =
     (if 0 < x then arctan (y / x)
      else if x < 0 then (if 0 \<le> y then arctan (y / x) + pi else arctan (y / x) - pi)
      else if 0 < y then pi / 2
      else if y < 0 then - (pi / 2)
      else 0)"

fun atan2f :: "float \<Rightarrow> float \<Rightarrow> float" where
  "atan2f (Fin y) (Fin x) = Fin (atan2 y x)"
| "atan2f _ _ = NaN"

fun fabsf :: "float \<Rightarrow> float" where
  "fabsf (Fin a) = Fin \<bar>a\<bar>"
| "fabsf NaN = NaN"

text \<open>\<^verbatim>\<open>copysignf(1.0f, x)\<close>, the only way the sources call it.\<close>

fun copysignf_one :: "float \<Rightarrow> float" where
  "copysignf_one (Fin a) = (if a < 0 then Fin (- 1) else Fin 1)"
| "copysignf_one NaN = Fin 1"

text \<open>\<^verbatim>\<open>fmod\<close>: the remainder has the sign of the dividend (the quotient is truncated).\<close>

definition trunc_real :: "real \<Rightarrow> real" where
  "trunc_real a = (if 0 \<le> a then of_int \<lfloor>a\<rfloor> else of_int \<lceil>a\<rceil>)"

fun fmod :: "float \<Rightarrow> float \<Rightarrow> float" where
  "fmod (Fin a) (Fin b) = (if b = 0 then NaN else Fin (a - b * trunc_real (a / b)))"
| "fmod _ _ = NaN"

text \<open>The conversion \<^verbatim>\<open>(float) n\<close> of a \<^verbatim>\<open>uint64_t\<close>, without its rounding.\<close>

definition float_of_u64 :: "64 word \<Rightarrow> float" where
  "float_of_u64 n = Fin (real (unat n))"


section \<open>Vectors, quaternions and matrices\<close>

datatype hmm_vec3 = Vec3 (vecX: float) (vecY: float) (vecZ: float)

datatype hmm_quaternion = Quat (quatX: float) (quatY: float) (quatZ: float) (quatW: float)

text \<open>\<^verbatim>\<open>Elements[column][row]\<close> of a 4x4 matrix.\<close>

type_synonym hmm_mat4 = "nat \<Rightarrow> nat \<Rightarrow> float"

text \<open>
  Modelled from the spec: the vendored header \<^verbatim>\<open>HandmadeMath.h\<close>, which defines the types
  above and every \<^verbatim>\<open>HMM_\<close> operation of this section, is not among the sources. The spec
  asks for a value-type quaternion and 3D vector with add, scale, cross, length,
  normalize and compose, all rotations being unit quaternions composed by the Hamilton
  product; the definitions below are those operations, component by component, in the
  \<open>(X, Y, Z, W)\<close> layout of the initialisers \<^verbatim>\<open>{0, 0, 0, 1}\<close> in the tracker.
\<close>

text \<open>Modelled from the spec: the component-wise sum, scaling and division of vectors.\<close>

fun HMM_AddVec3 :: "hmm_vec3 \<Rightarrow> hmm_vec3 \<Rightarrow> hmm_vec3" where
  "HMM_AddVec3 (Vec3 a b c) (Vec3 d e f) = Vec3 (a + d) (b + e) (c + f)"

fun HMM_MultiplyVec3f :: "hmm_vec3 \<Rightarrow> float \<Rightarrow> hmm_vec3" where
  "HMM_MultiplyVec3f (Vec3 a b c) k = Vec3 (a * k) (b * k) (c * k)"

fun HMM_DivideVec3f :: "hmm_vec3 \<Rightarrow> float \<Rightarrow> hmm_vec3" where
  "HMM_DivideVec3f (Vec3 a b c) k = Vec3 (a / k) (b / k) (c / k)"

text \<open>Modelled from the spec: the dot product, the length and the cross product.\<close>

fun HMM_DotVec3 :: "hmm_vec3 \<Rightarrow> hmm_vec3 \<Rightarrow> float" where
  "HMM_DotVec3 (Vec3 a b c) (Vec3 d e f) = (a * d) + (b * e) + (c * f)"

definition HMM_LengthVec3 :: "hmm_vec3 \<Rightarrow> float" where
  "HMM_LengthVec3 v = sqrtf (HMM_DotVec3 v v)"

fun HMM_Cross :: "hmm_vec3 \<Rightarrow> hmm_vec3 \<Rightarrow> hmm_vec3" where
  "HMM_Cross (Vec3 a b c) (Vec3 d e f) =
     Vec3 ((b * f) - (c * e)) ((c * d) - (a * f)) ((a * e) - (b * d))"

text \<open>
  Modelled from the spec: the dot product of quaternions, the division by a scalar and
  the normalisation, which divides by the length.
\<close>

fun HMM_DotQuaternion :: "hmm_quaternion \<Rightarrow> hmm_quaternion \<Rightarrow> float" where
  "HMM_DotQuaternion (Quat a b c d) (Quat e f g h) = (a * e) + (b * f) + (c * g) + (d * h)"

fun HMM_DivideQuaternionF :: "hmm_quaternion \<Rightarrow> float \<Rightarrow> hmm_quaternion" where
  "HMM_DivideQuaternionF (Quat a b c d) k = Quat (a / k) (b / k) (c / k) (d / k)"

definition HMM_NormalizeQuaternion :: "hmm_quaternion \<Rightarrow> hmm_quaternion" where
  "HMM_NormalizeQuaternion q = HMM_DivideQuaternionF q (sqrtf (HMM_DotQuaternion q q))"

text \<open>Modelled from the spec: the inverse is the conjugate divided by the squared norm.\<close>

definition HMM_InverseQuaternion :: "hmm_quaternion \<Rightarrow> hmm_quaternion" where
  "HMM_InverseQuaternion q =
     (let Conjugate = Quat (- quatX q) (- quatY q) (- quatZ q) (quatW q);
          Norm = sqrtf (HMM_DotQuaternion q q);
          NormSquared = Norm * Norm
      in HMM_DivideQuaternionF Conjugate NormSquared)"

text \<open>
  Modelled from the spec: the Hamilton product; the right factor is the rotation applied
  first.
\<close>

fun HMM_MultiplyQuaternion :: "hmm_quaternion \<Rightarrow> hmm_quaternion \<Rightarrow> hmm_quaternion" where
  "HMM_MultiplyQuaternion (Quat lx ly lz lw) (Quat rx ry rz rw) =
     Quat ((lx * rw) + (ly * rz) - (lz * ry) + (lw * rx))
          ((- lx * rz) + (ly * rw) + (lz * rx) + (lw * ry))
          ((lx * ry) - (ly * rx) + (lz * rw) + (lw * rz))
          ((- lx * rx) - (ly * ry) - (lz * rz) + (lw * rw))"

text \<open>
  Modelled from the spec: the rotation by an angle about an axis; the axis is divided by
  its length.
\<close>

definition HMM_QuaternionFromAxisAngle :: "hmm_vec3 \<Rightarrow> float \<Rightarrow> hmm_quaternion" where
  "HMM_QuaternionFromAxisAngle Axis AngleOfRotation =
     (let AxisNorm = sqrtf (HMM_DotVec3 Axis Axis);
          SineOfRotation = sinf (AngleOfRotation / Fin 2);
          RotatedVector = HMM_DivideVec3f (HMM_MultiplyVec3f Axis SineOfRotation) AxisNorm
      in Quat (vecX RotatedVector) (vecY RotatedVector) (vecZ RotatedVector)
              (cosf (AngleOfRotation / Fin 2)))"

text \<open>
  Modelled from the spec: the rotation matrix of a quaternion, which is normalised first;
  column \<open>c\<close> of the matrix is the image of the \<open>c\<close>-th unit axis.
\<close>

definition HMM_QuaternionToMat4 :: "hmm_quaternion \<Rightarrow> hmm_mat4" where
  "HMM_QuaternionToMat4 q =
     (case HMM_NormalizeQuaternion q of Quat x y z w \<Rightarrow>
        (let XX = x * x; YY = y * y; ZZ = z * z;
             XY = x * y; XZ = x * z; YZ = y * z;
             WX = w * x; WY = w * y; WZ = w * z
         in (\<lambda>c r.
              if c = 0 then
                (if r = 0 then Fin 1 - Fin 2 * (YY + ZZ)
                 else if r = 1 then Fin 2 * (XY + WZ)
                 else if r = 2 then Fin 2 * (XZ - WY)
                 else Fin 0)
              else if c = 1 then
                (if r = 0 then Fin 2 * (XY - WZ)
                 else if r = 1 then Fin 1 - Fin 2 * (XX + ZZ)
                 else if r = 2 then Fin 2 * (YZ + WX)
                 else Fin 0)
              else if c = 2 then
                (if r = 0 then Fin 2 * (XZ + WY)
                 else if r = 1 then Fin 2 * (YZ - WX)
                 else if r = 2 then Fin 1 - Fin 2 * (XX + YY)
                 else Fin 0)
              else (if r = 3 then Fin 1 else Fin 0))))"


section \<open>The orientation tracker (gyro\_tracker.c)\<close>

definition UNIT_X :: hmm_vec3 where
  "UNIT_X = Vec3 (Fin 1) (Fin 0) (Fin 0)"

definition UNIT_Y :: hmm_vec3 where
  "UNIT_Y = Vec3 (Fin 0) (Fin 1) (Fin 0)"

definition UNIT_Z :: hmm_vec3 where
  "UNIT_Z = Vec3 (Fin 0) (Fin 0) (Fin 1)"

text \<open>The file's static variables, as one state.\<close>

record tracker =
  m_currentToInitial :: hmm_quaternion
  m_initialToRecentre :: hmm_quaternion
  m_lastAngVel :: hmm_vec3
  m_lastGyroTimestamp :: "64 word"
  m_lastAccelerometerTimestamp :: "64 word"

text \<open>The initialisers of the static variables.\<close>

definition tracker_init :: tracker where
  "tracker_init =
     \<lparr> m_currentToInitial = Quat (Fin 0) (Fin 0) (Fin 0) (Fin 1),
       m_initialToRecentre = Quat (Fin 0) (Fin 0) (Fin 0) (Fin 1),
       m_lastAngVel = Vec3 (Fin 0) (Fin 0) (Fin 0),
       m_lastGyroTimestamp = 0,
       m_lastAccelerometerTimestamp = 0 \<rparr>"

definition GetMatrixColumn :: "hmm_mat4 \<Rightarrow> nat \<Rightarrow> hmm_vec3" where
  "GetMatrixColumn matrix column = Vec3 (matrix column 0) (matrix column 1) (matrix column 2)"

text \<open>
  The integration step of \<^verbatim>\<open>GyroTracker_PushGyroEvent\<close> (the code after the gap check):
  the trapezoid of the previous and the current angular velocity over \<open>deltaNS\<close>, turned
  into a rotation about X, then Y, then Z, and composed on the right.
\<close>

definition integrate_gyro ::
  "64 word \<Rightarrow> hmm_vec3 \<Rightarrow> hmm_vec3 \<Rightarrow> hmm_quaternion \<Rightarrow> hmm_quaternion" where
  "integrate_gyro deltaNS lastAngVel angularVelocity currentToInitial =
     (let deltaS = float_of_u64 deltaNS / Fin 1000000000;
          averageAngVel = HMM_DivideVec3f (HMM_AddVec3 lastAngVel angularVelocity) (Fin 2);
          integratedEuler = HMM_MultiplyVec3f averageAngVel deltaS;
          rotX = HMM_QuaternionFromAxisAngle UNIT_X (vecX integratedEuler);
          rotXY = HMM_MultiplyQuaternion rotX
                    (HMM_QuaternionFromAxisAngle UNIT_Y (vecY integratedEuler));
          thisUpdateRotation = HMM_MultiplyQuaternion rotXY
                    (HMM_QuaternionFromAxisAngle UNIT_Z (vecZ integratedEuler))
      in HMM_MultiplyQuaternion currentToInitial thisUpdateRotation)"

definition GyroTracker_PushGyroEvent :: "64 word \<Rightarrow> hmm_vec3 \<Rightarrow> tracker \<Rightarrow> tracker" where
  "GyroTracker_PushGyroEvent timestampNS angularVelocity s =
     (let deltaNS = timestampNS - m_lastGyroTimestamp s;
          s1 = s\<lparr>m_lastGyroTimestamp := timestampNS\<rparr>
      in if deltaNS > 500000000 then s1\<lparr>m_lastAngVel := angularVelocity\<rparr>
         else s1\<lparr>m_currentToInitial :=
                    integrate_gyro deltaNS (m_lastAngVel s1) angularVelocity
                      (m_currentToInitial s1),
                  m_lastAngVel := angularVelocity\<rparr>)"

text \<open>
  The drift correction of \<^verbatim>\<open>GyroTracker_PushAccelerometerEvent\<close> (the code after the gap
  check): \<open>None\<close> where the C function returns without touching the orientation.
\<close>

definition correct_drift :: "64 word \<Rightarrow> hmm_vec3 \<Rightarrow> hmm_quaternion \<Rightarrow> hmm_quaternion option" where
  "correct_drift deltaNS acceleration currentToInitial =
     (let deltaS = float_of_u64 deltaNS / Fin 1000000000;
          accelerationMagnitude = HMM_LengthVec3 acceleration
      in if feq accelerationMagnitude (Fin 0) then None
         else
          (let gravity = HMM_DivideVec3f acceleration accelerationMagnitude;
               initialToCurrent = HMM_InverseQuaternion currentToInitial;
               down = HMM_MultiplyVec3f
                        (GetMatrixColumn (HMM_QuaternionToMat4 initialToCurrent) 1) (Fin (- 1));
               cross = HMM_Cross down gravity;
               length = HMM_LengthVec3 cross
           in if feq length (Fin 0) then None
              else
               (let angle = asinf length;
                    axis = HMM_DivideVec3f cross length;
                    angleToCorrect = angle * deltaS;
                    correction = HMM_QuaternionFromAxisAngle axis angleToCorrect
                in Some (HMM_MultiplyQuaternion currentToInitial correction))))"

definition GyroTracker_PushAccelerometerEvent :: "64 word \<Rightarrow> hmm_vec3 \<Rightarrow> tracker \<Rightarrow> tracker" where
  "GyroTracker_PushAccelerometerEvent timestampNS acceleration s =
     (let deltaNS = timestampNS - m_lastAccelerometerTimestamp s;
          s1 = s\<lparr>m_lastAccelerometerTimestamp := timestampNS\<rparr>
      in if deltaNS > 500000000 then s1
         else (case correct_drift deltaNS acceleration (m_currentToInitial s1) of
                 None \<Rightarrow> s1
               | Some q \<Rightarrow> s1\<lparr>m_currentToInitial := q\<rparr>))"

text \<open>
  The yaw and the pitch of a forwards vector, as \<^verbatim>\<open>GyroTracker_Recentre\<close> computes them.
\<close>

definition forwards_yaw :: "hmm_vec3 \<Rightarrow> float" where
  "forwards_yaw forwards = atan2f (- vecX forwards) (- vecZ forwards)"

definition forwards_pitch :: "hmm_vec3 \<Rightarrow> float" where
  "forwards_pitch forwards = asinf (vecY forwards)"

definition GyroTracker_Recentre :: "tracker \<Rightarrow> tracker" where
  "GyroTracker_Recentre s =
     (let forwards = HMM_MultiplyVec3f
                       (GetMatrixColumn (HMM_QuaternionToMat4 (m_currentToInitial s)) 2)
                       (Fin (- 1));
          yaw = forwards_yaw forwards;
          pitch = forwards_pitch forwards;
          recentreToInitial = HMM_MultiplyQuaternion
                                (HMM_QuaternionFromAxisAngle UNIT_Y yaw)
                                (HMM_QuaternionFromAxisAngle UNIT_X pitch)
      in s\<lparr>m_initialToRecentre := HMM_InverseQuaternion recentreToInitial\<rparr>)"




fun quat_fin :: "hmm_quaternion \<Rightarrow> bool" where
  "quat_fin (Quat a b c d) = (is_fin a \<and> is_fin b \<and> is_fin c \<and> is_fin d)"


section \<open>The analog input shaper (input\_common.c)\<close>

datatype thumbstick_t = Stick (stick_x: float) (stick_y: float)

text \<open>
  Modelled from the spec: the macros \<^verbatim>\<open>Q_min\<close> and \<^verbatim>\<open>Q_max\<close> come from a header that is
  not among the sources; the spec describes their use as clamping. They are the
  conditional expressions \<^verbatim>\<open>a < b ? a : b\<close> and \<^verbatim>\<open>a > b ? a : b\<close>, so a \<open>NaN\<close> first
  argument selects the second.
\<close>

definition Q_min :: "float \<Rightarrow> float \<Rightarrow> float" where
  "Q_min a b = (if a < b then a else b)"

definition Q_max :: "float \<Rightarrow> float \<Rightarrow> float" where
  "Q_max a b = (if a > b then a else b)"

text \<open>The console variables that the modelled functions read (their \<^verbatim>\<open>value\<close> fields).\<close>

record cvars =
  joy_flick_threshold :: float
  joy_flick_smoothed :: float
  gyro_tightening :: float

definition FLICK_TIME :: nat where
  "FLICK_TIME = 6"

definition MAX_SMOOTH_SAMPLES :: nat where
  "MAX_SMOOTH_SAMPLES = 8"

text \<open>
  The flick stick's static variables: those at file level and those local to
  \<^verbatim>\<open>IN_FlickStick\<close>.
\<close>

record flick_state =
  is_flicking :: bool
  last_stick_angle :: float
  target_angle :: float
  flick_progress :: nat
  flick_samples :: "float list"
  front_sample :: nat


fun IN_StickMagnitude :: "thumbstick_t \<Rightarrow> float" where
  "IN_StickMagnitude (Stick x y) = sqrtf ((x * x) + (y * y))"

definition IN_MapRange :: "float \<Rightarrow> float \<Rightarrow> float \<Rightarrow> float" where
  "IN_MapRange v deadzone sign = ((v - deadzone) / (Fin 1 - deadzone)) * sign"

definition IN_RadialDeadzone :: "thumbstick_t \<Rightarrow> float \<Rightarrow> thumbstick_t" where
  "IN_RadialDeadzone stick deadzone0 =
     (let magnitude = Q_min (IN_StickMagnitude stick) (Fin 1);
          deadzone = Q_min (Q_max deadzone0 (Fin 0)) (Fin (9 / 10))
      in if magnitude > deadzone
         then (let scale = ((magnitude - deadzone) / (Fin 1 - deadzone)) / magnitude
               in Stick (stick_x stick * scale) (stick_y stick * scale))
         else Stick (Fin 0) (Fin 0))"

definition IN_SlopedAxialDeadzone :: "thumbstick_t \<Rightarrow> float \<Rightarrow> thumbstick_t" where
  "IN_SlopedAxialDeadzone stick deadzone0 =
     (let abs_x = fabsf (stick_x stick);
          abs_y = fabsf (stick_y stick);
          sign_x = copysignf_one (stick_x stick);
          sign_y = copysignf_one (stick_y stick);
          deadzone = Q_min deadzone0 (Fin (1 / 2));
          deadzone_x = deadzone * abs_y;
          deadzone_y = deadzone * abs_x
      in Stick (if abs_x > deadzone_x then IN_MapRange abs_x deadzone_x sign_x else Fin 0)
               (if abs_y > deadzone_y then IN_MapRange abs_y deadzone_y sign_y else Fin 0))"

definition IN_TightenInput :: "cvars \<Rightarrow> float \<Rightarrow> float \<Rightarrow> thumbstick_t" where
  "IN_TightenInput cv yaw pitch =
     (let magnitude = IN_StickMagnitude (Stick yaw pitch);
          threshold = (Fin pi / Fin 180) * gyro_tightening cv
      in if magnitude < threshold
         then (let scale = magnitude / threshold in Stick (yaw * scale) (pitch * scale))
         else Stick yaw pitch)"

definition IN_ResetSmoothSamples :: "flick_state \<Rightarrow> flick_state" where
  "IN_ResetSmoothSamples st =
     st\<lparr>front_sample := 0,
        flick_samples := fold (\<lambda>i samples. samples[i := Fin 0]) [0..<MAX_SMOOTH_SAMPLES]
                           (flick_samples st)\<rparr>"

definition IN_SmoothedStickRotation :: "cvars \<Rightarrow> float \<Rightarrow> flick_state \<Rightarrow> float \<times> flick_state" where
  "IN_SmoothedStickRotation cv value st =
     (let top_threshold = joy_flick_smoothed cv;
          bottom_threshold = top_threshold / Fin 2
      in if feq top_threshold (Fin 0) then (value, st)
         else
          (let front = (front_sample st + 1) mod MAX_SMOOTH_SAMPLES;
               immediate_weight0 = (fabsf value - bottom_threshold)
                                     / (top_threshold - bottom_threshold);
               immediate_weight = Q_min (Q_max immediate_weight0 (Fin 0)) (Fin 1);
               smooth_weight = Fin 1 - immediate_weight;
               samples = (flick_samples st)[front := value * smooth_weight];
               average = fold (\<lambda>i acc. acc + samples ! i) [0..<MAX_SMOOTH_SAMPLES] (Fin 0)
                           / Fin (real MAX_SMOOTH_SAMPLES)
           in (average + value * immediate_weight,
               st\<lparr>front_sample := front, flick_samples := samples\<rparr>)))"

text \<open>The angle of a processed stick in degrees, measured from "up".\<close>

definition stick_angle_of :: "thumbstick_t \<Rightarrow> float" where
  "stick_angle_of processed =
     (Fin 180 / Fin pi) * atan2f (- stick_x processed) (- stick_y processed)"

text \<open>The wrap of an angle difference into \<open>[-180, 180]\<close>.\<close>

definition angle_wrap :: "float \<Rightarrow> float" where
  "angle_wrap angle_change0 =
     (let angle_change = fmod (angle_change0 + Fin 180) (Fin 360);
          angle_change = (if angle_change < Fin 0 then angle_change + Fin 360 else angle_change)
      in angle_change - Fin 180)"

text \<open>\<^verbatim>\<open>IN_FlickStick\<close> returns the angle change and updates the statics.\<close>

definition IN_FlickStick ::
  "cvars \<Rightarrow> thumbstick_t \<Rightarrow> float \<Rightarrow> flick_state \<Rightarrow> float \<times> flick_state" where
  "IN_FlickStick cv stick axial_deadzone st =
     (if IN_StickMagnitude stick > Q_min (joy_flick_threshold cv) (Fin 1) then
        (let processed = (if \<not> is_flicking st \<or> flick_progress st < FLICK_TIME
                          then IN_SlopedAxialDeadzone stick axial_deadzone else stick);
             stick_angle = stick_angle_of processed
         in if \<not> is_flicking st then
              (Fin 0,
               (IN_ResetSmoothSamples
                  (st\<lparr>is_flicking := True, flick_progress := 0, target_angle := stick_angle\<rparr>))
               \<lparr>last_stick_angle := stick_angle\<rparr>)
            else
              (let (angle_change, st1) =
                     IN_SmoothedStickRotation cv (angle_wrap (stick_angle - last_stick_angle st)) st
               in (angle_change, st1\<lparr>last_stick_angle := stick_angle\<rparr>)))
      else (Fin 0, st\<lparr>is_flicking := False\<rparr>))"




section \<open>Sensor event streams\<close>






section \<open>Exact quaternion algebra\<close>




type_synonym rquat = "real \<times> real \<times> real \<times> real"


fun quat_of :: "rquat \<Rightarrow> hmm_quaternion" where
  "quat_of (x, y, z, w) = Quat (Fin x) (Fin y) (Fin z) (Fin w)"
















section \<open>Gaps in the sample stream\<close>

text \<open>
  C3. A gyro sample whose (wrapped, unsigned) distance from the previous gyro timestamp
  is more than 500,000,000 ns integrates nothing: the orientation and every other
  field stay as they were, the cached angular velocity and the gyro timestamp become
  those of the new sample, and the next sample behaves as if the stream had started at
  the post-gap sample; when that next sample is within 500 ms its rotation is
  integrated over the time since the post-gap timestamp.
\<close>

theorem gyro_gap_skips_integration:
  assumes "timestampNS - m_lastGyroTimestamp s > 500000000"
  shows "GyroTracker_PushGyroEvent timestampNS angularVelocity s =
           s\<lparr>m_lastGyroTimestamp := timestampNS, m_lastAngVel := angularVelocity\<rparr>
         \<and> m_currentToInitial (GyroTracker_PushGyroEvent timestampNS angularVelocity s) =
             m_currentToInitial s
         \<and> m_lastAngVel (GyroTracker_PushGyroEvent timestampNS angularVelocity s) =
             angularVelocity
         \<and> m_lastGyroTimestamp (GyroTracker_PushGyroEvent timestampNS angularVelocity s) =
             timestampNS
         \<and> m_currentToInitial
             (GyroTracker_PushGyroEvent next_ts next_vel
               (GyroTracker_PushGyroEvent timestampNS angularVelocity s)) =
             (if next_ts - timestampNS > 500000000 then m_currentToInitial s
              else integrate_gyro (next_ts - timestampNS) angularVelocity next_vel
                     (m_currentToInitial s))"
  using assms by (simp add: GyroTracker_PushGyroEvent_def Let_def)

theorem gyro_gap_skips_integration_witness:
  "(600000000 :: 64 word) - m_lastGyroTimestamp tracker_init > 500000000
   \<and> GyroTracker_PushGyroEvent 600000000 (Vec3 (Fin 1) (Fin 2) (Fin 3)) tracker_init =
       tracker_init\<lparr>m_lastGyroTimestamp := 600000000,
                    m_lastAngVel := Vec3 (Fin 1) (Fin 2) (Fin 3)\<rparr>"
proof -
  have gap: "(600000000 :: 64 word) - m_lastGyroTimestamp tracker_init > 500000000"
    by (simp add: tracker_init_def)
  from gyro_gap_skips_integration [OF gap] gap show ?thesis
    by blast
qed

lemma wrapped_delta:
  fixes ts last :: "64 word"
  assumes "ts < last"
  shows "unat (ts - last) = 2 ^ 64 - (unat last - unat ts)"
  using assms by (simp add: unat_sub_if' word_less_nat_alt)

lemma wrapped_delta_gap:
  fixes ts last :: "64 word"
  assumes "ts < last"
  shows "(ts - last > 500000000) = (unat last - unat ts < 2 ^ 64 - 500000000)"
proof -
  have "unat last < 2 ^ 64"
    using unsigned_less [of last, where 'a = nat] by simp
  then show ?thesis
    using assms by (auto simp: word_less_nat_alt wrapped_delta)
qed

lemma sin_eighth_nonzero: "sin (1 / 8 :: real) \<noteq> 0"
  using sin_gt_zero_02 [of "1 / 8"] by simp

lemma sin_sixteenth_nonzero: "sin (1 / 16 :: real) \<noteq> 0"
  using sin_gt_zero_02 [of "1 / 16"] by simp

text \<open>
  C10. As stated, the property fails where the earlier timestamp is so far back that
  the wrapped difference is small: with the previous gyro timestamp at
  \<open>2^64 - 250,000,000\<close> and a new sample at timestamp 0, the difference wraps to
  250,000,000 ns, which is within 500 ms, and the sample is integrated.
\<close>

theorem out_of_order_wrap_counterexample:
  "(0 :: 64 word) <
     m_lastGyroTimestamp
       (tracker_init\<lparr>m_lastGyroTimestamp := 18446744073459551616,
                    m_lastAngVel := Vec3 (Fin 1) (Fin 0) (Fin 0)\<rparr>)
   \<and> (0 :: 64 word) -
       m_lastGyroTimestamp
         (tracker_init\<lparr>m_lastGyroTimestamp := 18446744073459551616,
                      m_lastAngVel := Vec3 (Fin 1) (Fin 0) (Fin 0)\<rparr>) = 250000000
   \<and> m_currentToInitial
       (GyroTracker_PushGyroEvent 0 (Vec3 (Fin 1) (Fin 0) (Fin 0))
         (tracker_init\<lparr>m_lastGyroTimestamp := 18446744073459551616,
                      m_lastAngVel := Vec3 (Fin 1) (Fin 0) (Fin 0)\<rparr>)) =
       Quat (Fin (sin (1 / 8))) (Fin 0) (Fin 0) (Fin (cos (1 / 8)))
   \<and> m_currentToInitial
       (GyroTracker_PushGyroEvent 0 (Vec3 (Fin 1) (Fin 0) (Fin 0))
         (tracker_init\<lparr>m_lastGyroTimestamp := 18446744073459551616,
                      m_lastAngVel := Vec3 (Fin 1) (Fin 0) (Fin 0)\<rparr>)) \<noteq>
       m_currentToInitial
         (tracker_init\<lparr>m_lastGyroTimestamp := 18446744073459551616,
                      m_lastAngVel := Vec3 (Fin 1) (Fin 0) (Fin 0)\<rparr>)"
  using sin_eighth_nonzero
  by (simp add: GyroTracker_PushGyroEvent_def tracker_init_def integrate_gyro_def
      float_of_u64_def HMM_QuaternionFromAxisAngle_def UNIT_X_def UNIT_Y_def UNIT_Z_def Let_def)

text \<open>
  C10, amended. A gyro or accelerometer sample whose timestamp is strictly earlier than
  the recorded one by less than \<open>2^64 - 500,000,000\<close> ns is treated as a discontinuity:
  the unsigned difference wraps to more than 500,000,000, no rotation or correction is
  applied, the timestamp becomes the new sample's and, for the gyro, so does the cached
  angular velocity.
\<close>

theorem out_of_order_sample_is_gap:
  "(timestampNS < m_lastGyroTimestamp s
      \<and> unat (m_lastGyroTimestamp s) - unat timestampNS < 2 ^ 64 - 500000000 \<longrightarrow>
      timestampNS - m_lastGyroTimestamp s > 500000000
      \<and> GyroTracker_PushGyroEvent timestampNS sample s =
          s\<lparr>m_lastGyroTimestamp := timestampNS, m_lastAngVel := sample\<rparr>)
   \<and> (timestampNS < m_lastAccelerometerTimestamp s
      \<and> unat (m_lastAccelerometerTimestamp s) - unat timestampNS < 2 ^ 64 - 500000000 \<longrightarrow>
      timestampNS - m_lastAccelerometerTimestamp s > 500000000
      \<and> GyroTracker_PushAccelerometerEvent timestampNS sample s =
          s\<lparr>m_lastAccelerometerTimestamp := timestampNS\<rparr>)"
  by (simp add: GyroTracker_PushGyroEvent_def GyroTracker_PushAccelerometerEvent_def Let_def
      wrapped_delta_gap)

theorem out_of_order_sample_is_gap_witness:
  "(5 :: 64 word) < m_lastGyroTimestamp (tracker_init\<lparr>m_lastGyroTimestamp := 9\<rparr>)
   \<and> GyroTracker_PushGyroEvent 5 (Vec3 (Fin 1) (Fin 2) (Fin 3))
       (tracker_init\<lparr>m_lastGyroTimestamp := 9\<rparr>) =
       tracker_init\<lparr>m_lastGyroTimestamp := 5, m_lastAngVel := Vec3 (Fin 1) (Fin 2) (Fin 3)\<rparr>
   \<and> (5 :: 64 word) <
       m_lastAccelerometerTimestamp (tracker_init\<lparr>m_lastAccelerometerTimestamp := 9\<rparr>)
   \<and> GyroTracker_PushAccelerometerEvent 5 (Vec3 (Fin 1) (Fin 2) (Fin 3))
       (tracker_init\<lparr>m_lastAccelerometerTimestamp := 9\<rparr>) =
       tracker_init\<lparr>m_lastAccelerometerTimestamp := 5\<rparr>"
  using out_of_order_sample_is_gap
          [of 5 "tracker_init\<lparr>m_lastGyroTimestamp := 9\<rparr>" "Vec3 (Fin 1) (Fin 2) (Fin 3)"]
        out_of_order_sample_is_gap
          [of 5 "tracker_init\<lparr>m_lastAccelerometerTimestamp := 9\<rparr>" "Vec3 (Fin 1) (Fin 2) (Fin 3)"]
  by (simp add: tracker_init_def)


section \<open>Recentring\<close>

text \<open>
  C5. \<^verbatim>\<open>GyroTracker_Recentre\<close> is idempotent: a second call in a row leaves the state, and so
  \<open>initialToRecentre\<close>, as the first call left it; and a call changes neither
  \<open>currentToInitial\<close>, nor the cached angular velocity, nor either sample timestamp.
\<close>

theorem recentre_idempotent:
  "GyroTracker_Recentre (GyroTracker_Recentre s) = GyroTracker_Recentre s
   \<and> m_initialToRecentre (GyroTracker_Recentre (GyroTracker_Recentre s)) =
       m_initialToRecentre (GyroTracker_Recentre s)
   \<and> m_currentToInitial (GyroTracker_Recentre s) = m_currentToInitial s
   \<and> m_lastAngVel (GyroTracker_Recentre s) = m_lastAngVel s
   \<and> m_lastGyroTimestamp (GyroTracker_Recentre s) = m_lastGyroTimestamp s
   \<and> m_lastAccelerometerTimestamp (GyroTracker_Recentre s) = m_lastAccelerometerTimestamp s"
  by (simp add: GyroTracker_Recentre_def Let_def)


section \<open>Lemmas of the quaternion algebra\<close>
































section \<open>Recentring zeroes yaw and pitch\<close>






section \<open>Gyro samples with zero angular velocity\<close>

lemma quat_fin_obtain:
  assumes "quat_fin q"
  shows "\<exists>a. q = quat_of a"
proof -
  obtain x y z w where q: "q = Quat x y z w" by (cases q)
  from assms obtain x' y' z' w' where
    "x = Fin x'" "y = Fin y'" "z = Fin z'" "w = Fin w'"
    unfolding q by (cases x; cases y; cases z; cases w) simp_all
  then have "q = quat_of (x', y', z', w')"
    by (simp add: q)
  then show ?thesis by blast
qed

lemma integrate_gyro_at_rest:
  assumes "quat_fin q"
  shows "integrate_gyro deltaNS (Vec3 (Fin 0) (Fin 0) (Fin 0)) (Vec3 (Fin 0) (Fin 0) (Fin 0)) q = q"
proof -
  from quat_fin_obtain [OF assms] obtain a where a: "q = quat_of a" by blast
  obtain x y z w where xyzw: "a = (x, y, z, w)" by (cases a)
  show ?thesis
    by (simp add: a xyzw integrate_gyro_def float_of_u64_def HMM_QuaternionFromAxisAngle_def
        UNIT_X_def UNIT_Y_def UNIT_Z_def Let_def)
qed

text \<open>
  C2. As stated, the property fails when the cached angular velocity is not zero: the
  integration averages the cached and the new velocity, so after a cached velocity of
  1 rad/s about X, a zero sample 250 ms later still rotates the orientation by 1/8 rad
  about X.
\<close>

theorem zero_velocity_counterexample:
  "(250000000 :: 64 word)
     - m_lastGyroTimestamp (tracker_init\<lparr>m_lastAngVel := Vec3 (Fin 1) (Fin 0) (Fin 0)\<rparr>)
     \<le> 500000000
   \<and> m_currentToInitial
       (GyroTracker_PushGyroEvent 250000000 (Vec3 (Fin 0) (Fin 0) (Fin 0))
         (tracker_init\<lparr>m_lastAngVel := Vec3 (Fin 1) (Fin 0) (Fin 0)\<rparr>)) =
       Quat (Fin (sin (1 / 16))) (Fin 0) (Fin 0) (Fin (cos (1 / 16)))
   \<and> m_currentToInitial
       (GyroTracker_PushGyroEvent 250000000 (Vec3 (Fin 0) (Fin 0) (Fin 0))
         (tracker_init\<lparr>m_lastAngVel := Vec3 (Fin 1) (Fin 0) (Fin 0)\<rparr>)) \<noteq>
       m_currentToInitial (tracker_init\<lparr>m_lastAngVel := Vec3 (Fin 1) (Fin 0) (Fin 0)\<rparr>)"
  using sin_sixteenth_nonzero
  by (simp add: GyroTracker_PushGyroEvent_def tracker_init_def integrate_gyro_def
      float_of_u64_def HMM_QuaternionFromAxisAngle_def UNIT_X_def UNIT_Y_def UNIT_Z_def Let_def)


text \<open>
  C2, amended. For every tracker state with a finite \<open>currentToInitial\<close> and a cached
  angular velocity of \<open>(0, 0, 0)\<close>, and every timestamp whose delta from the previous gyro
  timestamp is at most 500 ms, \<^verbatim>\<open>GyroTracker_PushGyroEvent\<close> with angular velocity
  \<open>(0, 0, 0)\<close> leaves \<open>currentToInitial\<close> unchanged.
\<close>

theorem zero_velocity_at_rest_keeps_orientation:
  assumes "timestampNS - m_lastGyroTimestamp s \<le> 500000000"
    and "m_lastAngVel s = Vec3 (Fin 0) (Fin 0) (Fin 0)"
    and "quat_fin (m_currentToInitial s)"
  shows "m_currentToInitial
           (GyroTracker_PushGyroEvent timestampNS (Vec3 (Fin 0) (Fin 0) (Fin 0)) s) =
         m_currentToInitial s"
proof -
  have "\<not> timestampNS - m_lastGyroTimestamp s > 500000000"
    using assms(1) by (simp add: not_less)
  then show ?thesis
    using integrate_gyro_at_rest [OF assms(3)]
    by (simp add: GyroTracker_PushGyroEvent_def Let_def assms(2))
qed


theorem zero_velocity_at_rest_keeps_orientation_witness:
  "(250000000 :: 64 word) - m_lastGyroTimestamp tracker_init \<le> 500000000
   \<and> m_lastAngVel tracker_init = Vec3 (Fin 0) (Fin 0) (Fin 0)
   \<and> quat_fin (m_currentToInitial tracker_init)
   \<and> m_currentToInitial
       (GyroTracker_PushGyroEvent 250000000 (Vec3 (Fin 0) (Fin 0) (Fin 0)) tracker_init) =
       m_currentToInitial tracker_init"
proof -
  have delta: "(250000000 :: 64 word) - m_lastGyroTimestamp tracker_init \<le> 500000000"
    by (simp add: tracker_init_def)
  have rest: "m_lastAngVel tracker_init = Vec3 (Fin 0) (Fin 0) (Fin 0)"
    by (simp add: tracker_init_def)
  have fin: "quat_fin (m_currentToInitial tracker_init)"
    by (simp add: tracker_init_def)
  from zero_velocity_at_rest_keeps_orientation [OF delta rest fin] delta rest fin
  show ?thesis by blast
qed



section \<open>The forwards vector\<close>


























section \<open>The radial deadzone\<close>

lemma float_less_eq_cases:
  "a \<le> b \<Longrightarrow> \<exists>x y. a = Fin x \<and> b = Fin y \<and> x \<le> y"
  by (cases a; cases b) simp_all

lemma float_less_cases:
  "a < b \<Longrightarrow> \<exists>x y. a = Fin x \<and> b = Fin y \<and> x < y"
  by (cases a; cases b) simp_all

lemma radial_clamp_range:
  "\<exists>d. Q_min (Q_max deadzone (Fin 0)) (Fin (9 / 10)) = Fin d \<and> 0 \<le> d \<and> d \<le> 9 / 10"
proof (cases deadzone)
  case (Fin a)
  show ?thesis
  proof (cases "a < 9 / 10")
    case True
    then show ?thesis using Fin by (simp add: Q_min_def Q_max_def)
  next
    case False
    then show ?thesis using Fin
      by (intro exI [of _ "9 / 10"]) (simp add: Q_min_def Q_max_def)
  qed
next
  case NaN
  then show ?thesis by (simp add: Q_min_def Q_max_def)
qed

lemma stick_magnitude_fin:
  "IN_StickMagnitude stick = Fin m \<Longrightarrow>
     \<exists>x y. stick = Stick (Fin x) (Fin y) \<and> m = sqrt (x * x + y * y)"
  by (cases stick; cases "stick_x stick"; cases "stick_y stick") (auto split: if_splits)

lemma sqrt_hundredth: "sqrt (1 / 100) = 1 / 10"
  by (rule real_sqrt_unique) (simp_all add: power2_eq_square)

lemma radial_zero:
  assumes "IN_StickMagnitude stick \<le> Q_min (Q_max deadzone (Fin 0)) (Fin (9 / 10))"
  shows "IN_RadialDeadzone stick deadzone = Stick (Fin 0) (Fin 0)"
proof -
  obtain d where d: "Q_min (Q_max deadzone (Fin 0)) (Fin (9 / 10)) = Fin d" "0 \<le> d" "d \<le> 9 / 10"
    using radial_clamp_range by blast
  from assms d(1) obtain m where m: "IN_StickMagnitude stick = Fin m" "m \<le> d"
    by (cases "IN_StickMagnitude stick") simp_all
  show ?thesis using m d by (simp add: IN_RadialDeadzone_def Q_min_def [of "Fin m"] Let_def)
qed

lemma radial_unit:
  assumes "IN_StickMagnitude stick = Fin 1"
  shows "IN_RadialDeadzone stick (Fin 0) = stick"
proof -
  from stick_magnitude_fin [OF assms] obtain x y where s: "stick = Stick (Fin x) (Fin y)" by blast
  show ?thesis using assms unfolding s
    by (simp add: IN_RadialDeadzone_def Q_min_def Q_max_def Let_def)
qed

text \<open>
  C7. The radial deadzone returns exactly \<open>{0, 0}\<close> when the stick magnitude is at or below
  the deadzone clamped to \<open>[0, 0.9]\<close>, for every stick and every deadzone parameter; and a
  stick of magnitude 1 with deadzone 0 is returned unchanged.
\<close>

theorem radial_deadzone_zero_and_unit:
  "(IN_StickMagnitude stick \<le> Q_min (Q_max deadzone (Fin 0)) (Fin (9 / 10)) \<longrightarrow>
      IN_RadialDeadzone stick deadzone = Stick (Fin 0) (Fin 0))
   \<and> (IN_StickMagnitude stick = Fin 1 \<longrightarrow> IN_RadialDeadzone stick (Fin 0) = stick)"
  using radial_zero radial_unit by blast

theorem radial_deadzone_zero_and_unit_witness:
  "IN_StickMagnitude (Stick (Fin (1 / 10)) (Fin 0)) \<le>
     Q_min (Q_max (Fin (4 / 25)) (Fin 0)) (Fin (9 / 10))
   \<and> IN_RadialDeadzone (Stick (Fin (1 / 10)) (Fin 0)) (Fin (4 / 25)) = Stick (Fin 0) (Fin 0)
   \<and> IN_StickMagnitude (Stick (Fin 0) (Fin (- 1))) = Fin 1
   \<and> IN_RadialDeadzone (Stick (Fin 0) (Fin (- 1))) (Fin 0) = Stick (Fin 0) (Fin (- 1))"
proof -
  have below: "IN_StickMagnitude (Stick (Fin (1 / 10)) (Fin 0)) \<le>
     Q_min (Q_max (Fin (4 / 25)) (Fin 0)) (Fin (9 / 10))"
    by (simp add: Q_min_def Q_max_def sqrt_hundredth)
  have unit: "IN_StickMagnitude (Stick (Fin 0) (Fin (- 1))) = Fin 1"
    by simp
  from radial_deadzone_zero_and_unit [of "Stick (Fin (1 / 10)) (Fin 0)" "Fin (4 / 25)"]
       radial_deadzone_zero_and_unit [of "Stick (Fin 0) (Fin (- 1))"] below unit
  show ?thesis by blast
qed





section \<open>Gyro tightening\<close>

lemma sqrt_scaled:
  assumes "0 \<le> r"
  shows "sqrt (x * r * (x * r) + y * r * (y * r)) = sqrt (x * x + y * y) * r"
proof -
  have "sqrt (x * r * (x * r) + y * r * (y * r)) = sqrt ((x * x + y * y) * (r * r))"
    by (simp add: algebra_simps)
  also have "\<dots> = sqrt (x * x + y * y) * sqrt (r * r)"
    by (rule real_sqrt_mult)
  finally show ?thesis using assms by simp
qed

text \<open>
  C8. When the magnitude of the yaw/pitch pair is strictly below the threshold
  (\<^verbatim>\<open>gyro_tightening\<close> degrees in radians), \<^verbatim>\<open>IN_TightenInput\<close> multiplies both components by
  magnitude / threshold, so that the magnitude of the output is the squared magnitude
  over the threshold; when the magnitude is at or above the threshold the input is
  returned unchanged.
\<close>

theorem tighten_input_scales_below_threshold:
  "(IN_StickMagnitude (Stick yaw pitch) < (Fin pi / Fin 180) * gyro_tightening cv \<longrightarrow>
      IN_TightenInput cv yaw pitch =
        Stick (yaw * (IN_StickMagnitude (Stick yaw pitch)
                       / ((Fin pi / Fin 180) * gyro_tightening cv)))
              (pitch * (IN_StickMagnitude (Stick yaw pitch)
                         / ((Fin pi / Fin 180) * gyro_tightening cv)))
      \<and> IN_StickMagnitude (IN_TightenInput cv yaw pitch) =
          IN_StickMagnitude (Stick yaw pitch)
            * (IN_StickMagnitude (Stick yaw pitch) / ((Fin pi / Fin 180) * gyro_tightening cv)))
   \<and> ((Fin pi / Fin 180) * gyro_tightening cv \<le> IN_StickMagnitude (Stick yaw pitch) \<longrightarrow>
      IN_TightenInput cv yaw pitch = Stick yaw pitch)"
proof (intro conjI impI)
  assume lt: "IN_StickMagnitude (Stick yaw pitch) < (Fin pi / Fin 180) * gyro_tightening cv"
  then show "IN_TightenInput cv yaw pitch =
        Stick (yaw * (IN_StickMagnitude (Stick yaw pitch)
                       / ((Fin pi / Fin 180) * gyro_tightening cv)))
              (pitch * (IN_StickMagnitude (Stick yaw pitch)
                         / ((Fin pi / Fin 180) * gyro_tightening cv)))"
    by (simp add: IN_TightenInput_def Let_def)
  from float_less_cases [OF lt] obtain m t where
    mt: "IN_StickMagnitude (Stick yaw pitch) = Fin m"
        "(Fin pi / Fin 180) * gyro_tightening cv = Fin t" "m < t"
    by blast
  from stick_magnitude_fin [OF mt(1)] obtain x y where
    xy: "yaw = Fin x" "pitch = Fin y" "m = sqrt (x * x + y * y)" by auto
  have m0: "0 \<le> m" using xy by simp
  then have t0: "0 < t" using mt by simp
  have "sqrt (x * (m / t) * (x * (m / t)) + y * (m / t) * (y * (m / t))) = m * (m / t)"
    using sqrt_scaled [of "m / t" x y] m0 t0 xy(3) by simp
  then show "IN_StickMagnitude (IN_TightenInput cv yaw pitch) =
          IN_StickMagnitude (Stick yaw pitch)
            * (IN_StickMagnitude (Stick yaw pitch) / ((Fin pi / Fin 180) * gyro_tightening cv))"
    using lt mt t0 m0 unfolding IN_TightenInput_def Let_def xy(1,2)
    by (auto simp: not_less sum_power2_ge_zero dest: order.strict_trans1)
next
  assume ge: "(Fin pi / Fin 180) * gyro_tightening cv \<le> IN_StickMagnitude (Stick yaw pitch)"
  from float_less_eq_cases [OF ge] obtain t m where
    "(Fin pi / Fin 180) * gyro_tightening cv = Fin t"
    "IN_StickMagnitude (Stick yaw pitch) = Fin m" "t \<le> m"
    by blast
  then show "IN_TightenInput cv yaw pitch = Stick yaw pitch"
    by (simp add: IN_TightenInput_def Let_def)
qed

theorem tighten_input_scales_below_threshold_witness:
  "IN_StickMagnitude (Stick (Fin (1 / 10)) (Fin 0))
     < (Fin pi / Fin 180) * gyro_tightening
         \<lparr>joy_flick_threshold = Fin (13 / 20), joy_flick_smoothed = Fin 8,
           gyro_tightening = Fin 18\<rparr>
   \<and> IN_TightenInput
         \<lparr>joy_flick_threshold = Fin (13 / 20), joy_flick_smoothed = Fin 8,
           gyro_tightening = Fin 18\<rparr> (Fin (1 / 10)) (Fin 0) =
       Stick (Fin (1 / (10 * pi))) (Fin 0)
   \<and> (Fin pi / Fin 180) * gyro_tightening
         \<lparr>joy_flick_threshold = Fin (13 / 20), joy_flick_smoothed = Fin 8,
           gyro_tightening = Fin 18\<rparr>
       \<le> IN_StickMagnitude (Stick (Fin 1) (Fin 0))
   \<and> IN_TightenInput
         \<lparr>joy_flick_threshold = Fin (13 / 20), joy_flick_smoothed = Fin 8,
           gyro_tightening = Fin 18\<rparr> (Fin 1) (Fin 0) = Stick (Fin 1) (Fin 0)"
proof -
  let ?cv = "\<lparr>joy_flick_threshold = Fin (13 / 20), joy_flick_smoothed = Fin 8,
           gyro_tightening = Fin 18\<rparr>"
  have below: "IN_StickMagnitude (Stick (Fin (1 / 10)) (Fin 0))
     < (Fin pi / Fin 180) * gyro_tightening ?cv"
    using pi_ge_two by (simp add: sqrt_hundredth)
  have above: "(Fin pi / Fin 180) * gyro_tightening ?cv
       \<le> IN_StickMagnitude (Stick (Fin 1) (Fin 0))"
    using pi_less_4 by simp
  from tighten_input_scales_below_threshold [of "Fin (1 / 10)" "Fin 0" ?cv] below
  have "IN_TightenInput ?cv (Fin (1 / 10)) (Fin 0) =
        Stick (Fin (1 / 10) * (IN_StickMagnitude (Stick (Fin (1 / 10)) (Fin 0))
                       / ((Fin pi / Fin 180) * gyro_tightening ?cv)))
              (Fin 0 * (IN_StickMagnitude (Stick (Fin (1 / 10)) (Fin 0))
                         / ((Fin pi / Fin 180) * gyro_tightening ?cv)))"
    by blast
  then have "IN_TightenInput ?cv (Fin (1 / 10)) (Fin 0) = Stick (Fin (1 / (10 * pi))) (Fin 0)"
    by (simp add: sqrt_hundredth)
  moreover from tighten_input_scales_below_threshold [of "Fin 1" "Fin 0" ?cv] above
  have "IN_TightenInput ?cv (Fin 1) (Fin 0) = Stick (Fin 1) (Fin 0)"
    by blast
  ultimately show ?thesis using below above by blast
qed



section \<open>Flick stick\<close>





lemma flick_keeps_target:
  assumes "is_flicking st \<or> \<not> IN_StickMagnitude stick > Q_min (joy_flick_threshold cv) (Fin 1)"
  shows "target_angle (snd (IN_FlickStick cv stick axial_deadzone st)) = target_angle st
     \<and> flick_progress (snd (IN_FlickStick cv stick axial_deadzone st)) = flick_progress st"
  using assms
  by (auto simp: IN_FlickStick_def IN_SmoothedStickRotation_def Let_def split: prod.splits if_splits)







end
